theory Spec2Isabelle
  imports Main "HOL-Library.AList"
begin

section \<open>The client: frontend/src/App.js\<close>

text \<open>
  The React component \<^verbatim>\<open>App\<close> is modelled by explicit state passing. The record
  \<open>client\<close> holds the eight \<^verbatim>\<open>useState\<close> cells under their source names, and the
  parts of the browser the component touches: the \<^verbatim>\<open>token\<close> entry of localStorage,
  the requests handed to axios (oldest first), the console, and the interval registered by
  \<^verbatim>\<open>setInterval\<close>. Nullable JavaScript values are options; a string is truthy when
  it is not empty. Every \<^verbatim>\<open>async\<close> function takes the outcome of its awaited request
  as an argument: \<open>Resolved\<close> with the response data, or \<open>Rejected\<close>, which is the
  \<^verbatim>\<open>catch\<close> branch.
\<close>

subsection \<open>Data\<close>

record user_info =
  username :: string

record container_info =
  container_name :: string
  port :: nat
  url :: string

record cli_data =
  container_info :: "container_info option"
  dashboard_url :: "string option"

record login_form =
  login_username :: string
  login_password :: string

record signup_form =
  signup_username :: string
  signup_email :: string
  signup_password :: string

text \<open>The data of the three credential responses, and of the status response.\<close>

datatype auth_data = AuthData (access_token: string) (data_user: "user_info option")

datatype status_data = StatusData (exists: bool) (status_container_info: "container_info option")

text \<open>
  A rejected request carries \<^verbatim>\<open>err.response?.data?.detail\<close>, which is undefined
  (\<open>None\<close>) when any link of the chain is missing.
\<close>

datatype rejection = Rejection (detail: "string option")

datatype 'a response = Resolved 'a | Rejected rejection

datatype verb = GET | POST | DELETE

datatype body = NoBody | LoginBody login_form | SignupBody signup_form

record request =
  verb :: verb
  path :: string
  authorization :: "string option"
  body :: body

datatype callback = CheckCLIStatus

record timer =
  callback :: callback
  delay :: nat

record client =
  user :: "user_info option"
  loading :: bool
  error :: string
  success :: string
  authPage :: string
  cliData :: "cli_data option"
  loginForm :: login_form
  signupForm :: signup_form
  token :: "string option"
  requests :: "request list"
  console :: "string list"
  interval :: "timer option"

text \<open>The state of a freshly mounted component, over a given localStorage entry.\<close>

definition initial :: "string option \<Rightarrow> client" where
  "initial tok =
     \<lparr>user = None, loading = True, error = [], success = [], authPage = ''login'',
      cliData = None,
      loginForm = \<lparr>login_username = [], login_password = []\<rparr>,
      signupForm = \<lparr>signup_username = [], signup_email = [], signup_password = []\<rparr>,
      token = tok, requests = [], console = [], interval = None\<rparr>"

subsection \<open>Requests\<close>

text \<open>
  The request interceptor: the Authorization header is added when the stored token is
  truthy.
\<close>

definition interceptor :: "client \<Rightarrow> string option" where
  "interceptor st =
     (case token st of
        None \<Rightarrow> None
      | Some t \<Rightarrow> if t \<noteq> [] then Some (''Bearer '' @ t) else None)"

definition send :: "verb \<Rightarrow> string \<Rightarrow> body \<Rightarrow> client \<Rightarrow> client" where
  "send v p b st =
     st\<lparr>requests := requests st @
          [\<lparr>verb = v, path = p, authorization = interceptor st, body = b\<rparr>]\<rparr>"

text \<open>\<^verbatim>\<open>err.response?.data?.detail || fallback\<close>\<close>

definition detail_or :: "rejection \<Rightarrow> string \<Rightarrow> string" where
  "detail_or e fallback =
     (case detail e of
        None \<Rightarrow> fallback
      | Some d \<Rightarrow> if d \<noteq> [] then d else fallback)"

subsection \<open>The functions of the component\<close>

definition checkAuth :: "auth_data response \<Rightarrow> client \<Rightarrow> client" where
  "checkAuth resp st =
     (let st1 =
        (case token st of
           None \<Rightarrow> st
         | Some t \<Rightarrow>
             if t \<noteq> [] then
               (let st0 = send GET ''/auth/verify'' NoBody st in
                case resp of
                  Resolved d \<Rightarrow> st0\<lparr>user := data_user d\<rparr>
                | Rejected e \<Rightarrow> st0\<lparr>token := None\<rparr>)
             else st)
      in st1\<lparr>loading := False\<rparr>)"

definition login :: "auth_data response \<Rightarrow> client \<Rightarrow> client" where
  "login resp st =
     (let st0 = send POST ''/auth/login'' (LoginBody (loginForm st)) (st\<lparr>error := []\<rparr>) in
      case resp of
        Resolved d \<Rightarrow> st0\<lparr>token := Some (access_token d), user := data_user d\<rparr>
      | Rejected e \<Rightarrow> st0\<lparr>error := detail_or e ''Login failed''\<rparr>)"

definition signup :: "auth_data response \<Rightarrow> client \<Rightarrow> client" where
  "signup resp st =
     (let st0 = send POST ''/auth/signup'' (SignupBody (signupForm st)) (st\<lparr>error := []\<rparr>) in
      case resp of
        Resolved d \<Rightarrow> st0\<lparr>token := Some (access_token d), user := data_user d\<rparr>
      | Rejected e \<Rightarrow> st0\<lparr>error := detail_or e ''Signup failed''\<rparr>)"

definition logout :: "client \<Rightarrow> client" where
  "logout st = st\<lparr>token := None, user := None, cliData := None\<rparr>"

definition requestCLI :: "cli_data response \<Rightarrow> client \<Rightarrow> client" where
  "requestCLI resp st =
     (let st0 = send POST ''/cli/request'' NoBody (st\<lparr>error := []\<rparr>) in
      case resp of
        Resolved d \<Rightarrow> st0\<lparr>cliData := Some d\<rparr>
      | Rejected e \<Rightarrow> st0\<lparr>error := detail_or e ''Failed to create CLI session''\<rparr>)"

definition checkCLIStatus :: "status_data response \<Rightarrow> client \<Rightarrow> client" where
  "checkCLIStatus resp st =
     (case user st of
        None \<Rightarrow> st
      | Some u \<Rightarrow>
          (let st0 = send GET (''/cli/status/'' @ username u) NoBody st in
           case resp of
             Resolved d \<Rightarrow>
               if exists d then
                 st0\<lparr>cliData :=
                       Some \<lparr>container_info = status_container_info d, dashboard_url = None\<rparr>\<rparr>
               else st0
           | Rejected e \<Rightarrow> st0\<lparr>console := console st0 @ [''No active CLI session'']\<rparr>))"

definition terminateCLI :: "unit response \<Rightarrow> client \<Rightarrow> client" where
  "terminateCLI resp st =
     (case user st of
        None \<Rightarrow> st
      | Some u \<Rightarrow>
          (let st0 = send DELETE (''/cli/terminate/'' @ username u) NoBody st in
           case resp of
             Resolved d \<Rightarrow> st0\<lparr>cliData := None\<rparr>
           | Rejected e \<Rightarrow> st0\<lparr>error := ''Failed to terminate CLI session''\<rparr>))"

text \<open>The handlers written inline in the JSX.\<close>

definition setAuthPage :: "string \<Rightarrow> client \<Rightarrow> client" where
  "setAuthPage p st = st\<lparr>authPage := p\<rparr>"

definition setLoginForm :: "login_form \<Rightarrow> client \<Rightarrow> client" where
  "setLoginForm f st = st\<lparr>loginForm := f\<rparr>"

definition setSignupForm :: "signup_form \<Rightarrow> client \<Rightarrow> client" where
  "setSignupForm f st = st\<lparr>signupForm := f\<rparr>"

subsection \<open>Effects\<close>

text \<open>
  \<^verbatim>\<open>cliData?.container_info\<close>: undefined when \<^verbatim>\<open>cliData\<close> is null.
\<close>

definition shown_container :: "client \<Rightarrow> container_info option" where
  "shown_container st =
     (case cliData st of None \<Rightarrow> None | Some d \<Rightarrow> container_info d)"

text \<open>The effect on \<^verbatim>\<open>[]\<close>: run once, after the first render.\<close>

definition mountEffect :: "auth_data response \<Rightarrow> client \<Rightarrow> client" where
  "mountEffect resp st = checkAuth resp st"

text \<open>The effect on \<^verbatim>\<open>[user]\<close>.\<close>

definition userEffect :: "status_data response \<Rightarrow> client \<Rightarrow> client" where
  "userEffect resp st = (if user st \<noteq> None then checkCLIStatus resp st else st)"

text \<open>
  The effect on \<^verbatim>\<open>[user, cliData?.container_info]\<close>. \<open>pollEffect\<close> is the body: the
  interval it registers, if any. Its cleanup function clears that interval, and an effect
  that registered nothing returns no cleanup. React runs the cleanup of the previous run and
  then the body whenever a dependency has changed, and the cleanup alone when the component
  goes away.
\<close>

definition pollEffect :: "client \<Rightarrow> timer option" where
  "pollEffect st =
     (if user st \<noteq> None \<and> shown_container st \<noteq> None
      then Some \<lparr>callback = CheckCLIStatus, delay = 20000\<rparr>
      else None)"

definition pollCleanup :: "client \<Rightarrow> client" where
  "pollCleanup st = st\<lparr>interval := None\<rparr>"

definition pollDeps :: "client \<Rightarrow> user_info option \<times> container_info option" where
  "pollDeps st = (user st, shown_container st)"

text \<open>
  \<open>commit old new\<close> is the effect phase of the render that follows a state change from
  \<open>old\<close> to \<open>new\<close>. Dependencies are compared by value here and by \<^verbatim>\<open>Object.is\<close> in
  React, so React may re-register an interval where the model keeps it; the registered
  interval is the same either way, and only its phase (which is not modelled) differs.
\<close>

definition commit :: "client \<Rightarrow> client \<Rightarrow> client" where
  "commit old new =
     (if pollDeps new = pollDeps old then new
      else (pollCleanup new)\<lparr>interval := pollEffect new\<rparr>)"

definition unmount :: "client \<Rightarrow> client" where
  "unmount st = pollCleanup st"

text \<open>One firing of the registered interval runs its callback.\<close>

definition tick :: "status_data response \<Rightarrow> client \<Rightarrow> client" where
  "tick resp st =
     (case interval st of
        None \<Rightarrow> st
      | Some t \<Rightarrow> (case callback t of CheckCLIStatus \<Rightarrow> checkCLIStatus resp st))"

subsection \<open>Rendering\<close>

text \<open>
  The JSX the component returns, as a tree. An expression child that is a number is a
  \<open>Number\<close> node; a child \<^verbatim>\<open>{c && <x/>}\<close> is present when \<open>c\<close> is truthy. Event
  handlers are named by the function they run. The emoji of the headings are written as the
  UTF-8 bytes of the source file.
\<close>

datatype handler =
    SetAuthPage string | Login | Signup | Logout | TerminateCLI | RequestCLI
  | ChangeLoginUsername | ChangeLoginPassword
  | ChangeSignupUsername | ChangeSignupEmail | ChangeSignupPassword

datatype attr =
    Attr string string
  | Flag string
  | Style "(string \<times> string) list"
  | On string handler

datatype node = Text string | Number nat | Elem string "attr list" "node list"

definition rocket :: string where
  "rocket = [CHR 0xF0, CHR 0x9F, CHR 0x9A, CHR 0x80]"

definition desktop :: string where
  "desktop = [CHR 0xF0, CHR 0x9F, CHR 0x96, CHR 0xA5, CHR 0xEF, CHR 0xB8, CHR 0x8F]"

definition check_mark :: string where
  "check_mark = [CHR 0xE2, CHR 0x9C, CHR 0x85]"

definition bar_chart :: string where
  "bar_chart = [CHR 0xF0, CHR 0x9F, CHR 0x93, CHR 0x8A]"

definition light_bulb :: string where
  "light_bulb = [CHR 0xF0, CHR 0x9F, CHR 0x92, CHR 0xA1]"

definition frame_style :: attr where
  "frame_style = Style [(''border'', ''1px solid #ccc''), (''borderRadius'', ''4px'')]"

definition loginFormView :: "client \<Rightarrow> node" where
  "loginFormView st =
     Elem ''form'' [On ''onSubmit'' Login]
       [Elem ''input''
          [Attr ''type'' ''text'', Attr ''placeholder'' ''Username'',
           Attr ''value'' (login_username (loginForm st)),
           On ''onChange'' ChangeLoginUsername, Flag ''required''] [],
        Elem ''input''
          [Attr ''type'' ''password'', Attr ''placeholder'' ''Password'',
           Attr ''value'' (login_password (loginForm st)),
           On ''onChange'' ChangeLoginPassword, Flag ''required''] [],
        Elem ''button'' [Attr ''type'' ''submit''] [Text ''Login'']]"

definition signupFormView :: "client \<Rightarrow> node" where
  "signupFormView st =
     Elem ''form'' [On ''onSubmit'' Signup]
       [Elem ''input''
          [Attr ''type'' ''text'', Attr ''placeholder'' ''Username'',
           Attr ''value'' (signup_username (signupForm st)),
           On ''onChange'' ChangeSignupUsername, Flag ''required''] [],
        Elem ''input''
          [Attr ''type'' ''email'', Attr ''placeholder'' ''Email'',
           Attr ''value'' (signup_email (signupForm st)),
           On ''onChange'' ChangeSignupEmail, Flag ''required''] [],
        Elem ''input''
          [Attr ''type'' ''password'', Attr ''placeholder'' ''Password'',
           Attr ''value'' (signup_password (signupForm st)),
           On ''onChange'' ChangeSignupPassword, Flag ''required''] [],
        Elem ''button'' [Attr ''type'' ''submit''] [Text ''Sign Up'']]"

definition authView :: "client \<Rightarrow> node" where
  "authView st =
     Elem ''div'' [Attr ''className'' ''container'']
       [Elem ''div'' [Attr ''className'' ''auth-form'']
          ([Elem ''h1'' [] [Text (rocket @ '' Unified CLI System'')]]
           @ (if error st \<noteq> [] then [Elem ''div'' [Attr ''className'' ''error''] [Text (error st)]]
              else [])
           @ [Elem ''div'' [Attr ''className'' ''tabs'']
                [Elem ''button''
                   [Attr ''className'' (if authPage st = ''login'' then ''active'' else []),
                    On ''onClick'' (SetAuthPage ''login'')]
                   [Text ''Login''],
                 Elem ''button''
                   [Attr ''className'' (if authPage st = ''signup'' then ''active'' else []),
                    On ''onClick'' (SetAuthPage ''signup'')]
                   [Text ''Signup'']],
              if authPage st = ''login'' then loginFormView st else signupFormView st])]"

definition tipsView :: node where
  "tipsView =
     Elem ''div'' [Attr ''className'' ''tips'']
       [Elem ''h4'' [] [Text (light_bulb @ '' Tips:'')],
        Elem ''ul'' []
          [Elem ''li'' [] [Text ''Files in /workspace persist between sessions''],
           Elem ''li'' [] [Text ''Session auto-terminates after 30 minutes of inactivity''],
           Elem ''li'' [] [Text ''Resource limits: 128MB RAM, 0.5 CPU cores'']]]"

definition dashboardView :: "string \<Rightarrow> node" where
  "dashboardView d =
     Elem ''div'' [Attr ''className'' ''dashboard-frame'', Style [(''marginTop'', ''2rem'')]]
       [Elem ''h4'' [] [Text (bar_chart @ '' Your Container Dashboard'')],
        Elem ''iframe''
          [Attr ''src'' (''http://localhost:3000'' @ d @ ''?orgId=1&kiosk''),
           Attr ''title'' ''User Dashboard'', Attr ''width'' ''100%'', Attr ''height'' ''600'',
           frame_style, Flag ''allowFullScreen''] []]"

text \<open>The branch taken when \<^verbatim>\<open>cliData?.container_info\<close> is truthy.\<close>

definition activeView :: "cli_data \<Rightarrow> container_info \<Rightarrow> node" where
  "activeView d ci =
     Elem ''div'' [Attr ''className'' ''cli-active'']
       [Elem ''div'' [Attr ''className'' ''container-info'']
          [Elem ''p'' [] [Text (check_mark @ '' CLI session active'')],
           Elem ''p'' [] [Elem ''strong'' [] [Text ''Container:''], Text '' '',
                          Text (container_name ci)],
           Elem ''p'' [] [Elem ''strong'' [] [Text ''Port:''], Text '' '', Number (port ci)],
           Elem ''button'' [On ''onClick'' TerminateCLI, Attr ''className'' ''danger'']
             [Text ''Terminate Session'']],
        Elem ''div'' [Attr ''className'' ''terminal-container'']
          ([Elem ''div'' [Attr ''className'' ''terminal-frame'']
              [Elem ''iframe''
                 [Attr ''src'' (url ci), Attr ''title'' ''CLI Terminal'',
                  Attr ''width'' ''100%'', Attr ''height'' ''600'', frame_style] []]]
           @ (case dashboard_url d of
                None \<Rightarrow> []
              | Some du \<Rightarrow> if du \<noteq> [] then [dashboardView du] else [])
           @ [tipsView])]"

definition inactiveView :: node where
  "inactiveView =
     Elem ''div'' [Attr ''className'' ''cli-inactive'']
       [Elem ''p'' [] [Text ''No active CLI session''],
        Elem ''button'' [On ''onClick'' RequestCLI, Attr ''className'' ''primary'']
          [Text ''Request CLI Access'']]"

definition mainView :: "user_info \<Rightarrow> client \<Rightarrow> node" where
  "mainView u st =
     Elem ''div'' [Attr ''className'' ''container'']
       ([Elem ''header'' []
           [Elem ''h1'' [] [Text (desktop @ '' Multi User CLI System'')],
            Elem ''div'' [Attr ''className'' ''header-right'']
              [Elem ''span'' [] [Text ''Welcome, '', Text (username u), Text ''!''],
               Elem ''button'' [On ''onClick'' Logout, Attr ''className'' ''logout-btn'']
                 [Text ''Logout'']]]]
        @ (if error st \<noteq> [] then [Elem ''div'' [Attr ''className'' ''error''] [Text (error st)]]
           else [])
        @ (if success st \<noteq> []
           then [Elem ''div'' [Attr ''className'' ''success''] [Text (success st)]]
           else [])
        @ [Elem ''div'' [Attr ''className'' ''main-content'']
             [Elem ''div'' [Attr ''className'' ''card'']
                [Elem ''h3'' [] [Text (desktop @ '' CLI Access'')],
                 case cliData st of
                   None \<Rightarrow> inactiveView
                 | Some d \<Rightarrow>
                     (case container_info d of
                        None \<Rightarrow> inactiveView
                      | Some ci \<Rightarrow> activeView d ci)]]])"

definition render :: "client \<Rightarrow> node" where
  "render st =
     (if loading st then Elem ''div'' [Attr ''className'' ''loading''] [Text ''Loading...'']
      else case user st of
             None \<Rightarrow> authView st
           | Some u \<Rightarrow> mainView u st)"

text \<open>Reading a rendered tree: every node of it, its class, its list items.\<close>

fun nodes :: "node \<Rightarrow> node list" where
  "nodes (Elem t as cs) = Elem t as cs # concat (map nodes cs)"
| "nodes n = [n]"

fun has_class :: "string \<Rightarrow> node \<Rightarrow> bool" where
  "has_class c (Elem t as cs) = (Attr ''className'' c \<in> set as)"
| "has_class c n = False"

fun is_item :: "node \<Rightarrow> bool" where
  "is_item (Elem t as cs) = (t = ''li'')"
| "is_item n = False"

fun children :: "node \<Rightarrow> node list" where
  "children (Elem t as cs) = cs"
| "children n = []"

definition list_items :: "node \<Rightarrow> node list list" where
  "list_items n = map children (filter is_item (nodes n))"

definition sessions_shown :: "client \<Rightarrow> node list" where
  "sessions_shown st = filter (has_class ''cli-active'') (nodes (render st))"

section \<open>The session lifecycle orchestrator\<close>

text \<open>
  The orchestrator, its registry, the port allocator and the idle reaper run on the server,
  and the server is not among the sources: the client only calls it. Every definition of
  this section is therefore written from the specification, operation by operation, as a
  sequential model: each operation runs to its end before the next one starts. Timestamps
  are milliseconds of a monotonic clock.
\<close>

subsection \<open>Data\<close>

text \<open>Modelled from the spec: an identity is the opaque, comparable key of a verified user.\<close>

type_synonym identity = string

text \<open>Modelled from the spec: the states of a session record (data model, \<open>state\<close>).\<close>

datatype session_state = Requested | Active | Terminating | Terminated

text \<open>Modelled from the spec: the session record of the data model, absent from the sources.\<close>

record session_record =
  identity :: identity
  containerRef :: string
  session_port :: nat
  endpointURL :: string
  dashboardURL :: "string option"
  createdAt :: nat
  lastActivityAt :: nat
  state :: session_state

text \<open>Modelled from the spec: the error taxonomy of the error handling design.\<close>

datatype failure =
  AuthError | NotFound | ResourceExhausted | ProvisionError | RuntimeError | ValidationError

subsection \<open>PortAllocator\<close>

text \<open>
  Modelled from the spec: the port pool, a fixed integer range of which some values are
  handed out. The free values are those of the range that are not in use.
\<close>

record port_pool =
  lowest :: nat
  highest :: nat
  in_use :: "nat set"

text \<open>
  Modelled from the spec: \<open>Allocate()\<close> returns the lowest currently-free value or fails
  with \<open>ResourceExhausted\<close> if none remain.
\<close>

definition Allocate :: "port_pool \<Rightarrow> failure + nat \<times> port_pool" where
  "Allocate pl =
     (case List.find (\<lambda>p. p \<notin> in_use pl) [lowest pl ..< Suc (highest pl)] of
        None \<Rightarrow> Inl ResourceExhausted
      | Some p \<Rightarrow> Inr (p, pl\<lparr>in_use := insert p (in_use pl)\<rparr>))"

text \<open>
  Modelled from the spec: \<open>Release(port)\<close> returns a value to the free set; releasing an
  already-free port is a no-op.
\<close>

definition Release :: "nat \<Rightarrow> port_pool \<Rightarrow> port_pool" where
  "Release p pl = pl\<lparr>in_use := in_use pl - {p}\<rparr>"

subsection \<open>External collaborators\<close>

text \<open>
  Modelled from the spec: the fixed resource limits, 128 MB of memory and 0.5 of a compute
  core (500 thousandths).
\<close>

record limits =
  memory_mb :: nat
  cpu_millicores :: nat

text \<open>Modelled from the spec: the one value of the limits every session is created under.\<close>

definition fixed_limits :: limits where
  "fixed_limits = \<lparr>memory_mb = 128, cpu_millicores = 500\<rparr>"

text \<open>
  Modelled from the spec: the contract of the container runtime adapter,
  \<open>Create(identity, port, limits) -> containerRef | ProvisionError\<close> and
  \<open>Destroy(containerRef) -> ok | RuntimeError\<close>. The adapter is a black box, so its two
  operations are parameters of the model.
\<close>

record adapter =
  Create :: "identity \<Rightarrow> nat \<Rightarrow> limits \<Rightarrow> failure + string"
  Destroy :: "string \<Rightarrow> failure + unit"

text \<open>
  Modelled from the spec: the derived addressing information of a record. The spec does not
  say how the two URLs are computed, so the computation is a parameter.
\<close>

record addressing =
  endpoint_of :: "identity \<Rightarrow> nat \<Rightarrow> string"
  dashboard_of :: "identity \<Rightarrow> string option"

subsection \<open>SessionRegistry and SessionOrchestrator\<close>

text \<open>
  Modelled from the spec: a call made to the runtime adapter, with its arguments. The
  orchestrator appends one to a log whenever it invokes the adapter.
\<close>

datatype adapter_call = CreateCall identity nat limits | DestroyCall string

text \<open>
  Modelled from the spec: the shared state, that is the registry (identity to session
  record) and the port pool. Two logs make the effects on the collaborators visible: the
  calls made to the runtime adapter, and the destroy failures that are logged.
\<close>

record server =
  registry :: "(identity \<times> session_record) list"
  pool :: port_pool
  adapter_calls :: "adapter_call list"
  logged :: "failure list"

text \<open>Modelled from the spec: the live record of an identity, if there is one.\<close>

definition live :: "server \<Rightarrow> identity \<Rightarrow> session_record option" where
  "live s i = map_of (registry s) i"

text \<open>
  Modelled from the spec: \<open>RequestSession(identity)\<close>. A live record is returned
  unchanged. Otherwise a port is allocated (\<open>ResourceExhausted\<close> when none remains) and the
  adapter is asked to create the environment; on its failure the port is released and the
  operation fails with \<open>ProvisionError\<close>; on success a record in state \<open>Active\<close> is
  inserted and returned.
\<close>

definition RequestSession ::
  "adapter \<Rightarrow> addressing \<Rightarrow> nat \<Rightarrow> identity \<Rightarrow> server \<Rightarrow> (failure + session_record) \<times> server"
where
  "RequestSession ad addr now i s =
     (case live s i of
        Some r \<Rightarrow> (Inr r, s)
      | None \<Rightarrow>
          (case Allocate (pool s) of
             Inl e \<Rightarrow> (Inl ResourceExhausted, s)
           | Inr (p, pl) \<Rightarrow>
               (let s1 = s\<lparr>pool := pl,
                           adapter_calls := adapter_calls s @ [CreateCall i p fixed_limits]\<rparr>
                in case Create ad i p fixed_limits of
                     Inl e \<Rightarrow> (Inl ProvisionError, s1\<lparr>pool := Release p (pool s1)\<rparr>)
                   | Inr c \<Rightarrow>
                       (let r = \<lparr>identity = i, containerRef = c, session_port = p,
                                 endpointURL = endpoint_of addr i p,
                                 dashboardURL = dashboard_of addr i,
                                 createdAt = now, lastActivityAt = now, state = Active\<rparr>
                        in (Inr r, s1\<lparr>registry := AList.update i r (registry s1)\<rparr>)))))"

text \<open>
  Modelled from the spec: the reply of \<open>GetStatus\<close>, \<open>{exists: true, record}\<close> or
  \<open>{exists: false}\<close>.
\<close>

datatype status_reply = StatusReply (reply_exists: bool) (reply_record: "session_record option")

text \<open>
  Modelled from the spec: \<open>GetStatus(identity)\<close>, a read plus heartbeat. A live record
  gets \<open>lastActivityAt = now\<close> and is returned; with no live record the reply is
  \<open>{exists: false}\<close>.
\<close>

definition GetStatus :: "nat \<Rightarrow> identity \<Rightarrow> server \<Rightarrow> status_reply \<times> server" where
  "GetStatus now i s =
     (case live s i of
        None \<Rightarrow> (StatusReply False None, s)
      | Some r \<Rightarrow>
          (let r' = r\<lparr>lastActivityAt := now\<rparr>
           in (StatusReply True (Some r'), s\<lparr>registry := AList.update i r' (registry s)\<rparr>)))"

text \<open>Modelled from the spec: the two call sites of \<open>TerminateSession\<close>.\<close>

datatype caller = Reaper | ExplicitClient

text \<open>
  Modelled from the spec: \<open>TerminateSession(identity)\<close>. With no live record it is a no-op
  success for the reaper and \<open>NotFound\<close> for an explicit client call. Otherwise the record
  is marked \<open>Terminating\<close>, the adapter's destroy operation is invoked on its
  \<open>containerRef\<close> (a failure is logged, not fatal), the port is released and the record is
  removed.
\<close>

definition TerminateSession ::
  "adapter \<Rightarrow> caller \<Rightarrow> identity \<Rightarrow> server \<Rightarrow> (failure + unit) \<times> server"
where
  "TerminateSession ad who i s =
     (case live s i of
        None \<Rightarrow> (case who of Reaper \<Rightarrow> (Inr (), s) | ExplicitClient \<Rightarrow> (Inl NotFound, s))
      | Some r \<Rightarrow>
          (let s1 = s\<lparr>registry := AList.update i (r\<lparr>state := Terminating\<rparr>) (registry s)\<rparr>;
               s2 = s1\<lparr>adapter_calls := adapter_calls s1 @ [DestroyCall (containerRef r)]\<rparr>;
               s3 = (case Destroy ad (containerRef r) of
                       Inl e \<Rightarrow> s2\<lparr>logged := logged s2 @ [e]\<rparr>
                     | Inr ok \<Rightarrow> s2);
               s4 = s3\<lparr>pool := Release (session_port r) (pool s3)\<rparr>;
               s5 = s4\<lparr>registry := AList.delete i (registry s4)\<rparr>
           in (Inr (), s5)))"

subsection \<open>IdleReaper\<close>

text \<open>Modelled from the spec: the inactivity threshold, 30 minutes, in milliseconds.\<close>

definition idle_threshold :: nat where
  "idle_threshold = 30 * 60 * 1000"

text \<open>
  Modelled from the spec: what a reaper cycle does with one registry entry. An entry in
  state \<open>Active\<close> for which \<open>now - lastActivityAt\<close> exceeds the threshold goes down the
  termination path of \<open>TerminateSession\<close>. The record is read and acted upon in one step,
  as the per-identity mutual exclusion of the design requires.
\<close>

definition reap_entry :: "adapter \<Rightarrow> nat \<Rightarrow> identity \<Rightarrow> server \<Rightarrow> server" where
  "reap_entry ad now i s =
     (case live s i of
        None \<Rightarrow> s
      | Some r \<Rightarrow>
          if state r = Active \<and> idle_threshold < now - lastActivityAt r
          then snd (TerminateSession ad Reaper i s)
          else s)"

text \<open>Modelled from the spec: one reaper cycle, a scan of the registry entries.\<close>

definition ReaperCycle :: "adapter \<Rightarrow> nat \<Rightarrow> server \<Rightarrow> server" where
  "ReaperCycle ad now s = fold (reap_entry ad now) (map fst (registry s)) s"

section \<open>Runs and sample values\<close>

subsection \<open>Runs of the client\<close>

text \<open>A status response that reports no session: \<^verbatim>\<open>{exists: false}\<close>, or a failure.\<close>

fun no_session :: "status_data response \<Rightarrow> bool" where
  "no_session (Resolved d) = (\<not> exists d)"
| "no_session (Rejected e) = True"

text \<open>
  Everything that happens to the mounted component: its three effects and the handlers of
  its buttons, inputs and forms, each with the outcome of the request it awaits. A run is a
  list of events, in any order; React allows fewer runs than that (the mount effect runs
  once, the effect on \<^verbatim>\<open>[user]\<close> only after \<open>user\<close> has changed), so what holds of every
  run holds of the component.
\<close>

datatype event =
    Mount "auth_data response"
  | UserChanged "status_data response"
  | Fire "status_data response"
  | SubmitLogin "auth_data response"
  | SubmitSignup "auth_data response"
  | ClickLogout
  | ClickRequest "cli_data response"
  | ClickTerminate "unit response"
  | ClickTab string
  | ChangeLogin login_form
  | ChangeSignup signup_form

fun handle :: "event \<Rightarrow> client \<Rightarrow> client" where
  "handle (Mount r) st = mountEffect r st"
| "handle (UserChanged r) st = userEffect r st"
| "handle (Fire r) st = tick r st"
| "handle (SubmitLogin r) st = login r st"
| "handle (SubmitSignup r) st = signup r st"
| "handle ClickLogout st = logout st"
| "handle (ClickRequest r) st = requestCLI r st"
| "handle (ClickTerminate r) st = terminateCLI r st"
| "handle (ClickTab p) st = setAuthPage p st"
| "handle (ChangeLogin f) st = setLoginForm f st"
| "handle (ChangeSignup f) st = setSignupForm f st"

text \<open>An event, then the effect phase of the render it causes.\<close>

definition dispatch :: "event \<Rightarrow> client \<Rightarrow> client" where
  "dispatch ev st = commit st (handle ev st)"

text \<open>The contents of the list items of the tips block.\<close>

definition published :: "node list list" where
  "published =
     [[Text ''Files in /workspace persist between sessions''],
      [Text ''Session auto-terminates after 30 minutes of inactivity''],
      [Text ''Resource limits: 128MB RAM, 0.5 CPU cores'']]"

subsection \<open>Runs of the orchestrator\<close>

text \<open>
  Modelled from the spec: the request surface of the orchestrator and the reaper's cycle, as
  operations that follow one another. \<open>Terminate\<close> is the explicit client call.
\<close>

datatype operation = Request identity nat | Status identity nat | Terminate identity | Sweep nat

text \<open>
  Modelled from the spec: how the operations of a run are carried out, one after the other.
\<close>

fun perform :: "adapter \<Rightarrow> addressing \<Rightarrow> operation \<Rightarrow> server \<Rightarrow> server" where
  "perform ad addr (Request j t) s = snd (RequestSession ad addr t j s)"
| "perform ad addr (Status j t) s = snd (GetStatus t j s)"
| "perform ad addr (Terminate j) s = snd (TerminateSession ad ExplicitClient j s)"
| "perform ad addr (Sweep t) s = ReaperCycle ad t s"

text \<open>
  The operations that may terminate the session of \<open>i\<close>: an explicit terminate for \<open>i\<close>,
  and any reaper cycle.
\<close>

fun terminates :: "identity \<Rightarrow> operation \<Rightarrow> bool" where
  "terminates i (Terminate j) = (j = i)"
| "terminates i (Sweep t) = True"
| "terminates i (Request j t) = False"
| "terminates i (Status j t) = False"

subsection \<open>The client and the orchestrator in time\<close>

text \<open>
  The client's polling and the reaper meet on the server, so the two models are put side by
  side under one clock (milliseconds). The network is ideal: a request is answered at the
  instant it is sent. Timers are exact: a registered interval fires when it is due.
\<close>

text \<open>
  Modelled from the spec: the session descriptor exposed to clients (container reference or
  name, port, terminal endpoint URL), in the shape the client reads as \<open>container_info\<close>.
\<close>

definition descriptor :: "session_record \<Rightarrow> container_info" where
  "descriptor r =
     \<lparr>container_name = containerRef r, port = session_port r, url = endpointURL r\<rparr>"

text \<open>
  Modelled from the spec: the status call of the request surface, reached by
  \<^verbatim>\<open>GET /cli/status/{identity}\<close>. A request without a valid credential is rejected before it
  reaches the orchestrator; the verdict of the credential gateway on a request is the
  parameter \<open>auth\<close>. An accepted request is \<open>GetStatus\<close> for the identity its path names,
  and the reply carries the existence flag and the descriptor.
\<close>

definition status_endpoint ::
  "(request \<Rightarrow> bool) \<Rightarrow> nat \<Rightarrow> request \<Rightarrow> server \<Rightarrow> status_data response \<times> server"
where
  "status_endpoint auth now q s =
     (if auth q then
        (case GetStatus now (drop (length ''/cli/status/'') (path q)) s of
           (rep, s') \<Rightarrow>
             (Resolved (StatusData (reply_exists rep) (map_option descriptor (reply_record rep))),
              s'))
      else (Rejected (Rejection None), s))"

text \<open>
  The present time, the time at which the registered interval fires next (if one is
  registered), the component in the browser, and the server.
\<close>

record world =
  clock :: nat
  due :: "nat option"
  browser :: client
  backend :: server

text \<open>
  What a run of \<open>checkCLIStatus\<close> gets from the server at the present instant: the request
  of line 91 is answered by the status call. Without a user no request is sent, and the
  function does not look at any outcome.
\<close>

definition status_call :: "(request \<Rightarrow> bool) \<Rightarrow> world \<Rightarrow> status_data response \<times> server" where
  "status_call auth w =
     (case user (browser w) of
        None \<Rightarrow> (Rejected (Rejection None), backend w)
      | Some u \<Rightarrow>
          status_endpoint auth (clock w)
            \<lparr>verb = GET, path = ''/cli/status/'' @ username u,
             authorization = interceptor (browser w), body = NoBody\<rparr>
            (backend w))"

text \<open>
  \<^verbatim>\<open>setInterval(f, delay)\<close> fires \<open>delay\<close> milliseconds after its registration and after each
  firing. A browser does not fire an interval twice in one instant: a delay below one
  millisecond counts as one.
\<close>

definition next_due :: "nat \<Rightarrow> client \<Rightarrow> nat option" where
  "next_due now b =
     (case interval b of None \<Rightarrow> None | Some tm \<Rightarrow> Some (now + max 1 (delay tm)))"

text \<open>
  The interval fires: its callback runs with the server's answer, the render that follows
  runs the effect phase, and the interval that is registered then (the same one, or the one
  registered anew at this instant) is due one delay later.
\<close>

definition fire :: "(request \<Rightarrow> bool) \<Rightarrow> world \<Rightarrow> world" where
  "fire auth w =
     (case status_call auth w of
        (resp, s') \<Rightarrow>
          (let b' = dispatch (Fire resp) (browser w)
           in w\<lparr>browser := b', backend := s', due := next_due (clock w) b'\<rparr>))"

text \<open>
  The effect on \<^verbatim>\<open>[user]\<close> runs with the server's answer. An interval that stays
  registered keeps its time; one registered by the render that follows is due one delay
  from now.
\<close>

definition greet :: "(request \<Rightarrow> bool) \<Rightarrow> world \<Rightarrow> world" where
  "greet auth w =
     (case status_call auth w of
        (resp, s') \<Rightarrow>
          (let b' = dispatch (UserChanged resp) (browser w)
           in w\<lparr>browser := b', backend := s',
                due := (if pollDeps b' = pollDeps (browser w) then due w
                        else next_due (clock w) b')\<rparr>))"

text \<open>
  \<open>d\<close> milliseconds pass: the clock moves on, and whenever the registered interval is due
  on the way, it fires at that instant.
\<close>

function advance :: "(request \<Rightarrow> bool) \<Rightarrow> nat \<Rightarrow> world \<Rightarrow> world" where
  "advance auth d w =
     (case due w of
        None \<Rightarrow> w\<lparr>clock := clock w + d\<rparr>
      | Some t \<Rightarrow>
          if clock w + d < t then w\<lparr>clock := clock w + d\<rparr>
          else advance auth (clock w + d - max t (clock w))
                 (fire auth (w\<lparr>clock := max t (clock w)\<rparr>)))"
  by pat_completeness auto
termination
proof (relation "measure (\<lambda>(auth, d, w). case due w of None \<Rightarrow> 0 | Some t \<Rightarrow> clock w + d + 1 - t)")
  show "wf (measure (\<lambda>(auth, d, w). case due w of None \<Rightarrow> 0 | Some t \<Rightarrow> clock w + d + 1 - t))"
    by simp
next
  fix auth :: "request \<Rightarrow> bool" and d :: nat and w :: world and t :: nat
  assume t: "due w = Some t" and late: "\<not> clock w + d < t"
  let ?c = "max t (clock w)"
  let ?w = "fire auth (w\<lparr>clock := ?c\<rparr>)"
  have c: "clock ?w = ?c"
    by (simp add: fire_def Let_def split: prod.split)
  have "due ?w = None \<or> (\<exists>t'. due ?w = Some t' \<and> ?c < t')"
    by (auto simp: fire_def Let_def next_due_def split: prod.split option.split)
  with t late c
  show "((auth, clock w + d - ?c, ?w), (auth, d, w))
      \<in> measure (\<lambda>(auth, d, w). case due w of None \<Rightarrow> 0 | Some t \<Rightarrow> clock w + d + 1 - t)"
    by (auto simp: max_def)
qed

declare advance.simps [simp del]

text \<open>
  What happens around an open session that the user only watches: time passes, and the
  reaper runs a cycle at the present time. (Modelled from the spec: the reaper's cycles come
  on a period of their own, at any time.)
\<close>

datatype happening = Pass nat | Reap

fun happen :: "(request \<Rightarrow> bool) \<Rightarrow> adapter \<Rightarrow> happening \<Rightarrow> world \<Rightarrow> world" where
  "happen auth ad (Pass d) w = advance auth d w"
| "happen auth ad Reap w = w\<lparr>backend := ReaperCycle ad (clock w) (backend w)\<rparr>"

text \<open>
  An authenticated user has a session displayed: the user is set and the status requests
  made in the user's name are accepted, \<^verbatim>\<open>cliData.container_info\<close> is present, the
  interval is the one the polling effect registers, the server holds a live record for the
  user, and the next firing is due before that record's last heartbeat is 30 minutes old.
\<close>

definition watched :: "(request \<Rightarrow> bool) \<Rightarrow> user_info \<Rightarrow> world \<Rightarrow> bool" where
  "watched auth u w =
     (user (browser w) = Some u
      \<and> shown_container (browser w) \<noteq> None
      \<and> interval (browser w) = pollEffect (browser w)
      \<and> auth \<lparr>verb = GET, path = ''/cli/status/'' @ username u,
               authorization = interceptor (browser w), body = NoBody\<rparr>
      \<and> (case live (backend w) (username u) of
            None \<Rightarrow> False
          | Some r \<Rightarrow>
              (case due w of
                 None \<Rightarrow> False
               | Some t \<Rightarrow> clock w \<le> t \<and> t \<le> lastActivityAt r + idle_threshold)))"

subsection \<open>Sample values\<close>

definition alice :: user_info where
  "alice = \<lparr>username = ''alice''\<rparr>"

definition box :: container_info where
  "box = \<lparr>container_name = ''cli-alice'', port = 8001, url = ''http://localhost:8001''\<rparr>"

definition watching :: client where
  "watching =
     (initial (Some ''tok''))
       \<lparr>user := Some alice, loading := False,
        cliData := Some \<lparr>container_info = Some box, dashboard_url = None\<rparr>\<rparr>"

definition docker :: adapter where
  "docker = \<lparr>Create = (\<lambda>i p l. Inr (''cli-'' @ i)), Destroy = (\<lambda>c. Inr ())\<rparr>"

definition broken :: adapter where
  "broken = \<lparr>Create = (\<lambda>i p l. Inl ProvisionError), Destroy = (\<lambda>c. Inl RuntimeError)\<rparr>"

definition localhost :: addressing where
  "localhost = \<lparr>endpoint_of = (\<lambda>i p. ''http://localhost/'' @ i), dashboard_of = (\<lambda>i. None)\<rparr>"

definition fresh_server :: server where
  "fresh_server =
     \<lparr>registry = [], pool = \<lparr>lowest = 8001, highest = 8002, in_use = {}\<rparr>,
      adapter_calls = [], logged = []\<rparr>"

definition session_of :: "identity \<Rightarrow> nat \<Rightarrow> nat \<Rightarrow> session_record" where
  "session_of i p t =
     \<lparr>identity = i, containerRef = ''cli-'' @ i, session_port = p,
      endpointURL = ''http://localhost/'' @ i, dashboardURL = None,
      createdAt = t, lastActivityAt = t, state = Active\<rparr>"

definition busy_server :: server where
  "busy_server =
     \<lparr>registry = [(''alice'', session_of ''alice'' 8001 0),
                  (''bob'', session_of ''bob'' 8002 120000)],
      pool = \<lparr>lowest = 8001, highest = 8002, in_use = {8001, 8002}\<rparr>,
      adapter_calls = [], logged = []\<rparr>"

definition signed_in :: client where
  "signed_in = (initial (Some ''tok''))\<lparr>user := Some alice, loading := False\<rparr>"

definition gatekeeper :: "request \<Rightarrow> bool" where
  "gatekeeper q = (authorization q = Some ''Bearer tok'')"

definition arrival :: world where
  "arrival = \<lparr>clock = 0, due = None, browser = signed_in, backend = busy_server\<rparr>"

section \<open>Properties of the client\<close>

subsection \<open>What sending a request changes\<close>

lemma send_fields:
  "user (send v p b st) = user st" "loading (send v p b st) = loading st"
  "error (send v p b st) = error st" "success (send v p b st) = success st"
  "authPage (send v p b st) = authPage st" "cliData (send v p b st) = cliData st"
  "loginForm (send v p b st) = loginForm st" "signupForm (send v p b st) = signupForm st"
  "token (send v p b st) = token st" "console (send v p b st) = console st"
  "interval (send v p b st) = interval st"
  "requests (send v p b st) =
     requests st @ [\<lparr>verb = v, path = p, authorization = interceptor st, body = b\<rparr>]"
  by (simp_all add: send_def)

lemma checkCLIStatus_requests:
  "requests (checkCLIStatus resp st) =
     requests st @
       (case user st of
          None \<Rightarrow> []
        | Some u \<Rightarrow> [\<lparr>verb = GET, path = ''/cli/status/'' @ username u,
                      authorization = interceptor st, body = NoBody\<rparr>])"
  by (simp add: checkCLIStatus_def Let_def send_fields split: option.split response.split)

lemma terminateCLI_requests:
  "requests (terminateCLI resp st) =
     requests st @
       (case user st of
          None \<Rightarrow> []
        | Some u \<Rightarrow> [\<lparr>verb = DELETE, path = ''/cli/terminate/'' @ username u,
                      authorization = interceptor st, body = NoBody\<rparr>])"
  by (simp add: terminateCLI_def Let_def send_fields split: option.split response.split)

subsection \<open>No user, no call\<close>

text \<open>
  Claim C10. When no user is authenticated (\<open>user\<close> is null), \<open>checkCLIStatus\<close> and
  \<open>terminateCLI\<close> return at once: the whole client state, the list of issued requests
  included, is what it was. Hence every request either function adds is a status or
  terminate call on the path of the authenticated user's own username.
\<close>

theorem unauthenticated_sends_nothing:
  "(user st = None \<longrightarrow> checkCLIStatus resp st = st \<and> terminateCLI resp' st = st)
   \<and> (\<forall>q \<in> set (requests (checkCLIStatus resp st)) - set (requests st).
         \<exists>u. user st = Some u \<and> verb q = GET \<and> path q = ''/cli/status/'' @ username u)
   \<and> (\<forall>q \<in> set (requests (terminateCLI resp' st)) - set (requests st).
         \<exists>u. user st = Some u \<and> verb q = DELETE \<and> path q = ''/cli/terminate/'' @ username u)"
proof (intro conjI impI)
  assume "user st = None"
  then show "checkCLIStatus resp st = st" by (simp add: checkCLIStatus_def)
next
  assume "user st = None"
  then show "terminateCLI resp' st = st" by (simp add: terminateCLI_def)
next
  show "\<forall>q \<in> set (requests (checkCLIStatus resp st)) - set (requests st).
         \<exists>u. user st = Some u \<and> verb q = GET \<and> path q = ''/cli/status/'' @ username u"
    by (cases "user st") (auto simp: checkCLIStatus_requests)
next
  show "\<forall>q \<in> set (requests (terminateCLI resp' st)) - set (requests st).
         \<exists>u. user st = Some u \<and> verb q = DELETE \<and> path q = ''/cli/terminate/'' @ username u"
    by (cases "user st") (auto simp: terminateCLI_requests)
qed

theorem unauthenticated_sends_nothing_witness:
  "checkCLIStatus (Resolved (StatusData True None)) (initial (Some ''tok'')) = initial (Some ''tok'')
   \<and> terminateCLI (Resolved ()) (initial (Some ''tok'')) = initial (Some ''tok'')
   \<and> requests (checkCLIStatus (Resolved (StatusData True None)) (initial (Some ''tok''))) = []"
  using unauthenticated_sends_nothing
    [of "initial (Some ''tok'')" "Resolved (StatusData True None)" "Resolved ()"]
  by (simp add: initial_def)

subsection \<open>A failed verification on startup\<close>

text \<open>
  Claim C9. On startup, if a token is stored and the \<^verbatim>\<open>/auth/verify\<close> call fails for any
  reason, \<open>checkAuth\<close> removes the token from localStorage and leaves the user as it was
  (null on startup) without touching the error or success message; loading ends. If no
  token is stored, no request is made. (The verify call is made for a truthy token, that
  is a non-empty one.)
\<close>

theorem checkAuth_failed_verify:
  "(token st = Some t \<and> t \<noteq> [] \<longrightarrow>
      token (checkAuth (Rejected e) st) = None
      \<and> user (checkAuth (Rejected e) st) = user st
      \<and> error (checkAuth (Rejected e) st) = error st
      \<and> success (checkAuth (Rejected e) st) = success st
      \<and> \<not> loading (checkAuth (Rejected e) st)
      \<and> requests (checkAuth (Rejected e) st) =
          requests st @ [\<lparr>verb = GET, path = ''/auth/verify'',
                          authorization = Some (''Bearer '' @ t), body = NoBody\<rparr>])
   \<and> (token st = None \<longrightarrow>
        requests (checkAuth resp st) = requests st \<and> user (checkAuth resp st) = user st)"
  by (simp add: checkAuth_def Let_def send_fields interceptor_def)

theorem checkAuth_failed_verify_witness:
  "token (checkAuth (Rejected (Rejection (Some ''Invalid token''))) (initial (Some ''tok''))) = None
   \<and> user (checkAuth (Rejected (Rejection (Some ''Invalid token''))) (initial (Some ''tok''))) = None
   \<and> error (checkAuth (Rejected (Rejection (Some ''Invalid token''))) (initial (Some ''tok''))) = []
   \<and> \<not> loading (checkAuth (Rejected (Rejection (Some ''Invalid token''))) (initial (Some ''tok'')))
   \<and> requests (checkAuth (Resolved (AuthData ''x'' (Some alice))) (initial None)) = []
   \<and> user (checkAuth (Resolved (AuthData ''x'' (Some alice))) (initial None)) = None"
  using checkAuth_failed_verify
    [of "initial (Some ''tok'')" "''tok''" "Rejection (Some ''Invalid token'')"]
    checkAuth_failed_verify
    [of "initial None" "''tok''" "Rejection None" "Resolved (AuthData ''x'' (Some alice))"]
  by (simp add: initial_def)

subsection \<open>The published operating parameters\<close>

lemma tips_items: "list_items tipsView = published"
  by (simp add: list_items_def tipsView_def published_def)

lemma dashboard_nodes:
  "filter is_item (nodes (dashboardView du)) = []"
  "filter (has_class ''cli-active'') (nodes (dashboardView du)) = []"
  by (simp_all add: dashboardView_def frame_style_def)

lemma tips_nodes: "filter (has_class ''cli-active'') (nodes tipsView) = []"
  by (simp add: tipsView_def)

lemma active_items: "list_items (activeView d ci) = published"
  using tips_items
  by (simp add: list_items_def activeView_def frame_style_def dashboard_nodes
      split: option.split)

lemma active_sessions:
  "filter (has_class ''cli-active'') (nodes (activeView d ci)) = [activeView d ci]"
  by (simp add: activeView_def frame_style_def dashboard_nodes tips_nodes split: option.split)

lemma inactive_sessions: "filter (has_class ''cli-active'') (nodes inactiveView) = []"
  by (simp add: inactiveView_def)

lemma auth_sessions: "filter (has_class ''cli-active'') (nodes (authView st)) = []"
  by (simp add: authView_def loginFormView_def signupFormView_def)

lemma main_sessions:
  "filter (has_class ''cli-active'') (nodes (mainView u st)) =
     (case shown_container st of
        None \<Rightarrow> []
      | Some ci \<Rightarrow> [activeView (the (cliData st)) ci])"
  by (simp add: mainView_def shown_container_def active_sessions inactive_sessions
      split: option.split)

lemma sessions_shown_eq:
  "sessions_shown st =
     (if loading st then []
      else case user st of
             None \<Rightarrow> []
           | Some u \<Rightarrow>
               (case shown_container st of
                  None \<Rightarrow> []
                | Some ci \<Rightarrow> [activeView (the (cliData st)) ci]))"
  by (simp add: sessions_shown_def render_def auth_sessions main_sessions split: option.split)

text \<open>
  Claim C2. Every rendered active session (the \<^verbatim>\<open>cli-active\<close> block, rendered once when
  loading is over, a user is set and \<^verbatim>\<open>cliData?.container_info\<close> is present, and not at
  all otherwise) lists exactly three items: files in /workspace persist between sessions,
  the session auto-terminates after 30 minutes of inactivity, and the resource limits are
  128 MB of memory and 0.5 CPU cores.
\<close>

theorem published_parameters:
  "map list_items (sessions_shown st) =
     (if \<not> loading st \<and> user st \<noteq> None \<and> shown_container st \<noteq> None then [published] else [])"
  by (auto simp: sessions_shown_eq active_items split: option.split)

theorem published_parameters_witness:
  "map list_items (sessions_shown
      ((initial None)\<lparr>user := Some \<lparr>username = ''alice''\<rparr>, loading := False,
         cliData := Some \<lparr>container_info =
            Some \<lparr>container_name = ''cli-alice'', port = 8001, url = ''http://localhost:8001''\<rparr>,
            dashboard_url = Some ''/d/alice''\<rparr>\<rparr>)) =
     [[[Text ''Files in /workspace persist between sessions''],
       [Text ''Session auto-terminates after 30 minutes of inactivity''],
       [Text ''Resource limits: 128MB RAM, 0.5 CPU cores'']]]
   \<and> map list_items (sessions_shown (initial None)) = []"
  using published_parameters
    [of "(initial None)\<lparr>user := Some \<lparr>username = ''alice''\<rparr>, loading := False,
         cliData := Some \<lparr>container_info =
            Some \<lparr>container_name = ''cli-alice'', port = 8001, url = ''http://localhost:8001''\<rparr>,
            dashboard_url = Some ''/d/alice''\<rparr>\<rparr>"]
    published_parameters [of "initial None"]
  by (simp add: initial_def published_def shown_container_def)

subsection \<open>A session that is gone on the server\<close>

lemma render_cong:
  "user a = user b \<Longrightarrow> loading a = loading b \<Longrightarrow> error a = error b \<Longrightarrow>
   success a = success b \<Longrightarrow> authPage a = authPage b \<Longrightarrow> cliData a = cliData b \<Longrightarrow>
   loginForm a = loginForm b \<Longrightarrow> signupForm a = signupForm b \<Longrightarrow> render a = render b"
  by (simp add: render_def authView_def mainView_def loginFormView_def signupFormView_def
      split: option.split)

lemma checkCLIStatus_no_session:
  "no_session resp \<Longrightarrow>
     cliData (checkCLIStatus resp st) = cliData st \<and> user (checkCLIStatus resp st) = user st
     \<and> render (checkCLIStatus resp st) = render st"
  by (cases resp; cases "user st")
     (auto simp: checkCLIStatus_def Let_def send_fields intro!: render_cong)

lemma terminateCLI_rejected:
  "cliData (terminateCLI (Rejected e) st) = cliData st"
  "user (terminateCLI (Rejected e) st) = user st"
  "loading (terminateCLI (Rejected e) st) = loading st"
  "shown_container (terminateCLI (Rejected e) st) = shown_container st"
  by (cases "user st"; simp add: terminateCLI_def Let_def send_fields shown_container_def)+

lemma terminateCLI_resolved:
  "user (terminateCLI (Resolved ok) st) = user st"
  "loading (terminateCLI (Resolved ok) st) = loading st"
  "user st \<noteq> None \<Longrightarrow> cliData (terminateCLI (Resolved ok) st) = None"
  "user st \<noteq> None \<Longrightarrow> shown_container (terminateCLI (Resolved ok) st) = None"
  by (cases "user st"; simp add: terminateCLI_def Let_def send_fields shown_container_def)+

text \<open>
  Claim C8, as stated, fails: a session removed on the server does not stay displayed only
  until the user explicitly terminates. After a poll has answered \<^verbatim>\<open>{exists: false}\<close>, the
  user clicks Terminate Session; the server has no such session any more and the call
  fails; \<open>terminateCLI\<close> takes its catch branch, and the session is displayed as before.
\<close>

theorem stale_session_survives_terminate:
  "cliData (terminateCLI (Rejected (Rejection (Some ''Session not found'')))
       (fold checkCLIStatus [Resolved (StatusData False None)] watching)) =
     Some \<lparr>container_info = Some box, dashboard_url = None\<rparr>
   \<and> length (sessions_shown (terminateCLI (Rejected (Rejection (Some ''Session not found'')))
       (fold checkCLIStatus [Resolved (StatusData False None)] watching))) = 1"
  by (simp add: sessions_shown_eq shown_container_def terminateCLI_def checkCLIStatus_def
      Let_def send_def watching_def initial_def)

text \<open>
  Claim C8, amended. When a status poll returns \<^verbatim>\<open>{exists: false}\<close> or fails, the client
  leaves \<open>cliData\<close> unchanged rather than clearing it. So after any number of such polls the
  render is what it was: a session that was displayed as active, and has been removed on the
  server, is still displayed as active. An explicit terminate whose call fails leaves it
  displayed as well. It stays displayed until the user logs out or a terminate call
  succeeds: either clears \<open>cliData\<close>, and no session is displayed then.
\<close>

theorem stale_session_stays_displayed:
  "((\<forall>resp \<in> set resps. no_session resp) \<longrightarrow>
      cliData (fold checkCLIStatus resps st) = cliData st
      \<and> render (fold checkCLIStatus resps st) = render st
      \<and> sessions_shown (fold checkCLIStatus resps st) = sessions_shown st)
   \<and> cliData (terminateCLI (Rejected e) st) = cliData st
   \<and> sessions_shown (terminateCLI (Rejected e) st) = sessions_shown st
   \<and> cliData (logout st) = None
   \<and> sessions_shown (logout st) = []
   \<and> (user st \<noteq> None \<longrightarrow> cliData (terminateCLI (Resolved ok) st) = None)
   \<and> sessions_shown (terminateCLI (Resolved ok) st) = []"
proof (intro conjI)
  show "(\<forall>resp \<in> set resps. no_session resp) \<longrightarrow>
      cliData (fold checkCLIStatus resps st) = cliData st
      \<and> render (fold checkCLIStatus resps st) = render st
      \<and> sessions_shown (fold checkCLIStatus resps st) = sessions_shown st"
  proof (induction resps arbitrary: st)
    case Nil
    show ?case by simp
  next
    case (Cons resp resps)
    show ?case
    proof
      assume "\<forall>x \<in> set (resp # resps). no_session x"
      then have one: "no_session resp" and rest: "\<forall>x \<in> set resps. no_session x"
        by simp_all
      from Cons.IH [of "checkCLIStatus resp st"] rest checkCLIStatus_no_session [OF one, of st]
      show "cliData (fold checkCLIStatus (resp # resps) st) = cliData st
        \<and> render (fold checkCLIStatus (resp # resps) st) = render st
        \<and> sessions_shown (fold checkCLIStatus (resp # resps) st) = sessions_shown st"
        by (simp add: sessions_shown_def)
    qed
  qed
next
  show "cliData (terminateCLI (Rejected e) st) = cliData st"
    by (rule terminateCLI_rejected)
next
  show "sessions_shown (terminateCLI (Rejected e) st) = sessions_shown st"
    by (simp add: sessions_shown_eq terminateCLI_rejected split: option.split)
next
  show "cliData (logout st) = None" by (simp add: logout_def)
next
  show "sessions_shown (logout st) = []"
    by (simp add: sessions_shown_eq logout_def split: option.split)
next
  show "user st \<noteq> None \<longrightarrow> cliData (terminateCLI (Resolved ok) st) = None"
    by (simp add: terminateCLI_resolved)
next
  show "sessions_shown (terminateCLI (Resolved ok) st) = []"
    by (cases "user st")
       (simp_all add: sessions_shown_eq terminateCLI_resolved split: option.split)
qed

theorem stale_session_stays_displayed_witness:
  "cliData (fold checkCLIStatus [Resolved (StatusData False None), Rejected (Rejection None)] watching)
     = Some \<lparr>container_info = Some box, dashboard_url = None\<rparr>
   \<and> length (sessions_shown (fold checkCLIStatus
         [Resolved (StatusData False None), Rejected (Rejection None)] watching)) = 1
   \<and> length (sessions_shown (terminateCLI (Rejected (Rejection None)) watching)) = 1
   \<and> cliData (terminateCLI (Resolved ()) watching) = None
   \<and> sessions_shown (terminateCLI (Resolved ()) watching) = []
   \<and> sessions_shown (logout watching) = []"
proof -
  have shown: "length (sessions_shown watching) = 1"
    by (simp add: sessions_shown_def render_def watching_def initial_def mainView_def
        activeView_def tipsView_def alice_def box_def frame_style_def)
  from stale_session_stays_displayed
    [of "[Resolved (StatusData False None), Rejected (Rejection None)]" watching
        "Rejection None" "()"] shown
  show ?thesis by (simp add: watching_def initial_def)
qed

section \<open>Properties of the orchestrator\<close>

subsection \<open>The port pool\<close>

lemma find_Some_holds: "List.find P xs = Some x \<Longrightarrow> P x \<and> x \<in> set xs"
  by (induction xs) (auto split: if_splits)

lemma Allocate_Inr:
  assumes "Allocate pl = Inr (p, pl')"
  shows "p \<notin> in_use pl" and "pl' = pl\<lparr>in_use := insert p (in_use pl)\<rparr>"
    and "lowest pl \<le> p" and "p \<le> highest pl"
proof -
  from assms have f:
    "List.find (\<lambda>q. q \<notin> in_use pl) [lowest pl ..< Suc (highest pl)] = Some p"
    and upd: "pl' = pl\<lparr>in_use := insert p (in_use pl)\<rparr>"
    by (auto simp: Allocate_def simp del: upt_Suc split: option.splits)
  from find_Some_holds [OF f] show "p \<notin> in_use pl" by simp
  from upd show "pl' = pl\<lparr>in_use := insert p (in_use pl)\<rparr>" .
  from find_Some_holds [OF f] show "lowest pl \<le> p" and "p \<le> highest pl"
    by (simp_all del: upt_Suc)
qed

lemma Release_Allocate: "Allocate pl = Inr (p, pl') \<Longrightarrow> Release p pl' = pl"
  by (frule Allocate_Inr(1), drule Allocate_Inr(2)) (simp add: Release_def)

subsection \<open>The live record of an identity, operation by operation\<close>

lemma live_RequestSession_other:
  "j \<noteq> i \<Longrightarrow> live (snd (RequestSession ad addr t j s)) i = live s i"
  by (auto simp: RequestSession_def live_def Let_def update_conv' split: option.splits sum.splits)

lemma RequestSession_live:
  "live s i = Some r \<Longrightarrow> RequestSession ad addr t i s = (Inr r, s)"
  by (simp add: RequestSession_def)

lemma RequestSession_Inr_live:
  "RequestSession ad addr t i s = (Inr r, s') \<Longrightarrow> live s' i = Some r"
  by (auto simp: RequestSession_def live_def Let_def update_conv' split: option.splits sum.splits)

lemma live_GetStatus:
  "live (snd (GetStatus t j s)) i =
     (if j = i then map_option (\<lambda>r. r\<lparr>lastActivityAt := t\<rparr>) (live s i) else live s i)"
  by (auto simp: GetStatus_def live_def Let_def update_conv' split: option.splits)

lemma live_TerminateSession:
  "live (snd (TerminateSession ad who j s)) i = (if j = i then None else live s i)"
  by (auto simp: TerminateSession_def live_def Let_def update_conv' delete_conv'
      split: option.splits sum.splits caller.splits)

lemma live_reap_entry:
  "live (reap_entry ad now k s) i =
     (if k = i then
        (case live s i of
           None \<Rightarrow> None
         | Some r \<Rightarrow>
             if state r = Active \<and> idle_threshold < now - lastActivityAt r then None else Some r)
      else live s i)"
  by (simp add: reap_entry_def live_TerminateSession split: option.split)

lemma live_in_registry: "live s i = Some r \<Longrightarrow> i \<in> set (map fst (registry s))"
  by (auto simp: live_def dest!: map_of_SomeD intro: rev_image_eqI)

subsection \<open>Status and terminate without a live record\<close>

text \<open>
  Claim C3. For an identity with no live record, \<open>GetStatus\<close> returns \<open>{exists: false}\<close> and
  the state after the call is the state before it, so no session is created. The client's
  status path agrees: every request \<open>checkCLIStatus\<close> issues is a GET, and none goes to the
  session-creation endpoint \<^verbatim>\<open>/cli/request\<close>.
\<close>

theorem status_of_absent:
  "(live s i = None \<longrightarrow> GetStatus now i s = (StatusReply False None, s))
   \<and> (\<forall>q \<in> set (requests (checkCLIStatus resp st)) - set (requests st).
         verb q = GET \<and> path q \<noteq> ''/cli/request'')"
  by (cases "user st")
     (auto simp: GetStatus_def checkCLIStatus_def Let_def send_def split: response.splits)

theorem status_of_absent_witness:
  "GetStatus 7 ''alice'' fresh_server = (StatusReply False None, fresh_server)
   \<and> requests (checkCLIStatus (Resolved (StatusData False None)) watching) =
       [\<lparr>verb = GET, path = ''/cli/status/alice'', authorization = Some ''Bearer tok'',
         body = NoBody\<rparr>]"
  using status_of_absent [of fresh_server "''alice''" 7 "Resolved (StatusData False None)"
      watching]
  by (simp add: live_def fresh_server_def initial_def checkCLIStatus_def watching_def
      alice_def send_def interceptor_def)

text \<open>
  Claim C4. \<open>TerminateSession\<close> on an identity with no live record is a no-op success when
  the reaper invokes it and fails with \<open>NotFound\<close> when an explicit client call does; the
  state is unchanged either way. The client maps every failure of its terminate call to
  the one message 'Failed to terminate CLI session' and leaves \<open>cliData\<close> as it was.
\<close>

theorem terminate_of_absent:
  "(live s i = None \<longrightarrow>
      TerminateSession ad Reaper i s = (Inr (), s)
      \<and> TerminateSession ad ExplicitClient i s = (Inl NotFound, s))
   \<and> (user st \<noteq> None \<longrightarrow>
        error (terminateCLI (Rejected e) st) = ''Failed to terminate CLI session''
        \<and> cliData (terminateCLI (Rejected e) st) = cliData st)"
  by (cases "user st") (auto simp: TerminateSession_def terminateCLI_def Let_def send_def)

theorem terminate_of_absent_witness:
  "TerminateSession docker Reaper ''alice'' fresh_server = (Inr (), fresh_server)
   \<and> TerminateSession docker ExplicitClient ''alice'' fresh_server = (Inl NotFound, fresh_server)
   \<and> error (terminateCLI (Rejected (Rejection (Some ''Session not found''))) watching) =
       ''Failed to terminate CLI session''
   \<and> cliData (terminateCLI (Rejected (Rejection (Some ''Session not found''))) watching) =
       Some \<lparr>container_info = Some box, dashboard_url = None\<rparr>"
  using terminate_of_absent [of fresh_server "''alice''" docker watching
      "Rejection (Some ''Session not found'')"]
  by (simp add: live_def fresh_server_def watching_def initial_def)

subsection \<open>Idempotent requests\<close>

lemma perform_keeps:
  assumes "live s i = Some r" and "\<not> terminates i op"
  shows "\<exists>r'. live (perform ad addr op s) i = Some r'
            \<and> session_port r' = session_port r \<and> containerRef r' = containerRef r"
proof (cases op)
  case (Request j t)
  show ?thesis
  proof (cases "j = i")
    case True
    with assms Request show ?thesis by (simp add: RequestSession_live)
  next
    case False
    with assms Request show ?thesis by (simp add: live_RequestSession_other)
  qed
next
  case (Status j t)
  with assms show ?thesis by (simp add: live_GetStatus)
next
  case (Terminate j)
  with assms show ?thesis by (simp add: live_TerminateSession)
next
  case (Sweep t)
  with assms show ?thesis by simp
qed

lemma run_keeps:
  "live s i = Some r \<Longrightarrow> \<forall>op \<in> set ops. \<not> terminates i op \<Longrightarrow>
     \<exists>r'. live (fold (perform ad addr) ops s) i = Some r'
        \<and> session_port r' = session_port r \<and> containerRef r' = containerRef r"
proof (induction ops arbitrary: s r)
  case Nil
  then show ?case by simp
next
  case (Cons op ops)
  from perform_keeps [OF Cons.prems(1), of op ad addr] Cons.prems(2)
  obtain r' where r': "live (perform ad addr op s) i = Some r'"
    "session_port r' = session_port r" "containerRef r' = containerRef r"
    by auto
  from Cons.IH [OF r'(1)] Cons.prems(2) r'(2,3) show ?case by simp
qed

text \<open>
  Claim C5. \<open>RequestSession\<close> is idempotent. After a call for an identity has returned a
  record, and whatever operations follow that do not terminate that identity's session
  (requests and status calls for anyone, terminations of others), a second call returns a
  record with the same port and container reference, and the state after the second call is
  the state before it: no port is allocated, the adapter is not called, no timestamp moves.
  When the second call follows the first at once, it returns the very same record.
\<close>

theorem RequestSession_idempotent:
  assumes first: "RequestSession ad1 addr1 t1 i s = (Inr r1, s1)"
    and quiet: "\<forall>op \<in> set ops. \<not> terminates i op"
  shows "\<exists>r2. RequestSession ad2 addr2 t2 i (fold (perform ad addr) ops s1) =
                (Inr r2, fold (perform ad addr) ops s1)
             \<and> session_port r2 = session_port r1 \<and> containerRef r2 = containerRef r1
             \<and> (ops = [] \<longrightarrow> r2 = r1)"
proof -
  from first have "live s1 i = Some r1" by (rule RequestSession_Inr_live)
  from run_keeps [OF this quiet, of ad addr]
  obtain r2 where r2: "live (fold (perform ad addr) ops s1) i = Some r2"
    "session_port r2 = session_port r1" "containerRef r2 = containerRef r1"
    by auto
  have "ops = [] \<longrightarrow> r2 = r1"
    using r2(1) \<open>live s1 i = Some r1\<close> by auto
  with r2 RequestSession_live [OF r2(1), of ad2 addr2 t2] show ?thesis by auto
qed

theorem RequestSession_idempotent_witness:
  "\<exists>r2. RequestSession broken localhost 9000 ''alice''
          (fold (perform docker localhost)
             [Status ''alice'' 5000, Request ''bob'' 6000, Terminate ''bob'']
             (snd (RequestSession docker localhost 0 ''alice'' fresh_server))) =
          (Inr r2,
           fold (perform docker localhost)
             [Status ''alice'' 5000, Request ''bob'' 6000, Terminate ''bob'']
             (snd (RequestSession docker localhost 0 ''alice'' fresh_server)))
        \<and> session_port r2 = 8001 \<and> containerRef r2 = ''cli-alice''"
proof -
  have first: "RequestSession docker localhost 0 ''alice'' fresh_server =
      (Inr (session_of ''alice'' 8001 0), snd (RequestSession docker localhost 0 ''alice'' fresh_server))"
    by (simp add: RequestSession_def Allocate_def live_def fresh_server_def docker_def
        localhost_def session_of_def Let_def)
  from RequestSession_idempotent [OF first,
      of "[Status ''alice'' 5000, Request ''bob'' 6000, Terminate ''bob'']"
         broken localhost 9000 docker localhost]
  show ?thesis by (simp add: session_of_def)
qed

subsection \<open>A failed provisioning\<close>

text \<open>
  Claim C6. When \<open>RequestSession\<close> reaches the runtime adapter (no live record, a port
  allocated) and the adapter's create operation fails, the call fails with \<open>ProvisionError\<close>
  and leaves the registry and the port pool exactly as they were before it: no record is
  inserted, and the allocated port is free again.
\<close>

theorem provision_failure_leaves_no_trace:
  assumes "live s i = None" and "Allocate (pool s) = Inr (p, pl)"
    and "Create ad i p fixed_limits = Inl e"
  shows "fst (RequestSession ad addr now i s) = Inl ProvisionError
       \<and> registry (snd (RequestSession ad addr now i s)) = registry s
       \<and> pool (snd (RequestSession ad addr now i s)) = pool s
       \<and> p \<notin> in_use (pool (snd (RequestSession ad addr now i s)))"
  using assms Release_Allocate [OF assms(2)] Allocate_Inr(1) [OF assms(2)]
  by (simp add: RequestSession_def Let_def)

theorem provision_failure_leaves_no_trace_witness:
  "fst (RequestSession broken localhost 0 ''alice'' fresh_server) = Inl ProvisionError
   \<and> registry (snd (RequestSession broken localhost 0 ''alice'' fresh_server)) = []
   \<and> pool (snd (RequestSession broken localhost 0 ''alice'' fresh_server)) =
       \<lparr>lowest = 8001, highest = 8002, in_use = {}\<rparr>
   \<and> 8001 \<notin> in_use (pool (snd (RequestSession broken localhost 0 ''alice'' fresh_server)))"
proof -
  have l: "live fresh_server ''alice'' = None"
    by (simp add: live_def fresh_server_def)
  have a: "Allocate (pool fresh_server) =
      Inr (8001, \<lparr>lowest = 8001, highest = 8002, in_use = {8001}\<rparr>)"
    by (simp add: Allocate_def fresh_server_def)
  have c: "Create broken ''alice'' 8001 fixed_limits = Inl ProvisionError"
    by (simp add: broken_def)
  from provision_failure_leaves_no_trace [OF l a c, of localhost 0]
  show ?thesis by (simp add: fresh_server_def)
qed

subsection \<open>The reaper\<close>

lemma reap_entry_shrinks:
  "in_use (pool (reap_entry ad now k s)) \<subseteq> in_use (pool s)"
  "set (adapter_calls s) \<subseteq> set (adapter_calls (reap_entry ad now k s))"
  by (auto simp: reap_entry_def TerminateSession_def Release_def Let_def
      split: option.splits sum.splits)

lemma reap_entry_stale:
  assumes "live s i = Some r" "state r = Active" "idle_threshold < now - lastActivityAt r"
  shows "session_port r \<notin> in_use (pool (reap_entry ad now i s))"
    and "DestroyCall (containerRef r) \<in> set (adapter_calls (reap_entry ad now i s))"
  using assms
  by (auto simp: reap_entry_def TerminateSession_def Release_def Let_def split: sum.splits)

lemma fold_reap_shrinks:
  "in_use (pool (fold (reap_entry ad now) ks s)) \<subseteq> in_use (pool s)
   \<and> set (adapter_calls s) \<subseteq> set (adapter_calls (fold (reap_entry ad now) ks s))"
proof (induction ks arbitrary: s)
  case Nil
  show ?case by simp
next
  case (Cons k ks)
  from Cons.IH [of "reap_entry ad now k s"]
    reap_entry_shrinks [where ad = ad and now = now and k = k and s = s]
  show ?case by auto
qed

lemma fold_reap_absent:
  "live s i = None \<Longrightarrow> live (fold (reap_entry ad now) ks s) i = None"
  by (induction ks arbitrary: s) (simp_all add: live_reap_entry)

lemma fold_reap_fresh:
  "live s i = Some r \<Longrightarrow> \<not> (state r = Active \<and> idle_threshold < now - lastActivityAt r) \<Longrightarrow>
     live (fold (reap_entry ad now) ks s) i = Some r"
proof (induction ks arbitrary: s)
  case Nil
  then show ?case by simp
next
  case (Cons k ks)
  from Cons.prems have "live (reap_entry ad now k s) i = Some r"
    by (auto simp: live_reap_entry)
  from Cons.IH [OF this Cons.prems(2)] show ?case by simp
qed

lemma fold_reap_stale:
  assumes "live s i = Some r" "state r = Active" "idle_threshold < now - lastActivityAt r"
    and "i \<in> set ks"
  shows "live (fold (reap_entry ad now) ks s) i = None
       \<and> session_port r \<notin> in_use (pool (fold (reap_entry ad now) ks s))
       \<and> DestroyCall (containerRef r) \<in> set (adapter_calls (fold (reap_entry ad now) ks s))"
  using assms
proof (induction ks arbitrary: s)
  case Nil
  then show ?case by simp
next
  case (Cons k ks)
  show ?case
  proof (cases "k = i")
    case True
    let ?s = "reap_entry ad now i s"
    from Cons.prems have gone: "live ?s i = None"
      by (simp add: live_reap_entry)
    from reap_entry_stale [OF Cons.prems(1-3), of ad]
    have "session_port r \<notin> in_use (pool ?s)"
      and "DestroyCall (containerRef r) \<in> set (adapter_calls ?s)"
      by simp_all
    with fold_reap_shrinks [of ad now ks ?s] fold_reap_absent [OF gone, of ad now ks] True
    show ?thesis by auto
  next
    case False
    with Cons.prems have "live (reap_entry ad now k s) i = Some r" and "i \<in> set ks"
      by (simp_all add: live_reap_entry)
    from Cons.IH [OF this(1) Cons.prems(2,3) this(2)] show ?thesis by simp
  qed
qed



section \<open>Polling as heartbeat\<close>

lemma handle_interval: "interval (handle ev st) = interval st"
  by (cases ev)
     (auto simp: mountEffect_def checkAuth_def userEffect_def tick_def checkCLIStatus_def
        login_def signup_def logout_def requestCLI_def terminateCLI_def setAuthPage_def
        setLoginForm_def setSignupForm_def Let_def send_fields
        split: option.splits response.splits callback.splits)

lemma pollEffect_deps: "pollDeps a = pollDeps b \<Longrightarrow> pollEffect a = pollEffect b"
  by (simp add: pollDeps_def pollEffect_def)

lemma pollEffect_interval: "pollEffect (st\<lparr>interval := x\<rparr>) = pollEffect st"
  by (simp add: pollEffect_def shown_container_def)

lemma dispatch_registered:
  assumes "interval st = pollEffect st"
  shows "interval (dispatch ev st) = pollEffect (dispatch ev st)"
proof (cases "pollDeps (handle ev st) = pollDeps st")
  case True
  with assms pollEffect_deps [OF True] show ?thesis
    by (simp add: dispatch_def commit_def handle_interval)
next
  case False
  then show ?thesis
    by (simp add: dispatch_def commit_def pollCleanup_def pollEffect_interval)
qed

lemma run_registered: "interval (fold dispatch evs (initial tok)) = pollEffect (fold dispatch evs (initial tok))"
proof -
  have "interval st = pollEffect st \<Longrightarrow>
      interval (fold dispatch evs st) = pollEffect (fold dispatch evs st)" for st
    by (induction evs arbitrary: st) (simp_all add: dispatch_registered)
  moreover have "interval (initial tok) = pollEffect (initial tok)"
    by (simp add: initial_def pollEffect_def)
  ultimately show ?thesis .
qed

lemma commit_fields:
  "user (commit old new) = user new" "cliData (commit old new) = cliData new"
  "token (commit old new) = token new" "requests (commit old new) = requests new"
  "shown_container (commit old new) = shown_container new"
  "interceptor (commit old new) = interceptor new"
  by (simp_all add: commit_def pollCleanup_def shown_container_def interceptor_def)

lemma poll_answered:
  assumes "user b = Some u"
  shows "user (checkCLIStatus (Resolved (StatusData True (Some d))) b) = Some u"
    and "shown_container (checkCLIStatus (Resolved (StatusData True (Some d))) b) = Some d"
    and "interceptor (checkCLIStatus (Resolved (StatusData True (Some d))) b) = interceptor b"
  using assms
  by (simp_all add: checkCLIStatus_def Let_def send_def shown_container_def interceptor_def)

lemma status_call_live:
  assumes "user (browser w) = Some u"
    and "auth \<lparr>verb = GET, path = ''/cli/status/'' @ username u,
               authorization = interceptor (browser w), body = NoBody\<rparr>"
    and "live (backend w) (username u) = Some r"
  shows "status_call auth w =
      (Resolved (StatusData True (Some (descriptor (r\<lparr>lastActivityAt := clock w\<rparr>)))),
       snd (GetStatus (clock w) (username u) (backend w)))"
  using assms by (simp add: status_call_def status_endpoint_def GetStatus_def Let_def)

lemma shown_after_poll:
  assumes u: "user b = Some u" and reg: "interval b = pollEffect b"
    and b': "b' = commit b (checkCLIStatus (Resolved (StatusData True (Some d))) b)"
  shows "user b' = Some u" and "shown_container b' = Some d"
    and "interval b' = Some \<lparr>callback = CheckCLIStatus, delay = 20000\<rparr>"
    and "interceptor b' = interceptor b"
    and "requests b' = requests b @
          [\<lparr>verb = GET, path = ''/cli/status/'' @ username u,
            authorization = interceptor b, body = NoBody\<rparr>]"
proof -
  let ?resp = "Resolved (StatusData True (Some d))"
  show user': "user b' = Some u" and shown': "shown_container b' = Some d"
    and "interceptor b' = interceptor b"
    using u by (simp_all add: b' commit_fields poll_answered)
  show "requests b' = requests b @
          [\<lparr>verb = GET, path = ''/cli/status/'' @ username u,
            authorization = interceptor b, body = NoBody\<rparr>]"
    using u by (simp add: b' commit_fields checkCLIStatus_requests)
  have "b' = dispatch (UserChanged ?resp) b"
    using u by (simp add: b' dispatch_def userEffect_def)
  with dispatch_registered [OF reg, of "UserChanged ?resp"]
  have "interval b' = pollEffect b'" by simp
  with user' shown' show "interval b' = Some \<lparr>callback = CheckCLIStatus, delay = 20000\<rparr>"
    by (simp add: pollEffect_def)
qed

lemma fire_watched:
  assumes u: "user (browser w) = Some u"
    and shown: "shown_container (browser w) \<noteq> None"
    and reg: "interval (browser w) = pollEffect (browser w)"
    and ok: "auth \<lparr>verb = GET, path = ''/cli/status/'' @ username u,
               authorization = interceptor (browser w), body = NoBody\<rparr>"
    and r: "live (backend w) (username u) = Some r"
  shows "clock (fire auth w) = clock w"
    and "due (fire auth w) = Some (clock w + 20000)"
    and "live (backend (fire auth w)) (username u) = Some (r\<lparr>lastActivityAt := clock w\<rparr>)"
    and "requests (browser (fire auth w)) = requests (browser w) @
          [\<lparr>verb = GET, path = ''/cli/status/'' @ username u,
            authorization = interceptor (browser w), body = NoBody\<rparr>]"
    and "user (browser (fire auth w)) = Some u"
    and "shown_container (browser (fire auth w)) \<noteq> None"
    and "interval (browser (fire auth w)) = pollEffect (browser (fire auth w))"
    and "interceptor (browser (fire auth w)) = interceptor (browser w)"
proof -
  let ?d = "descriptor (r\<lparr>lastActivityAt := clock w\<rparr>)"
  let ?resp = "Resolved (StatusData True (Some ?d))"
  let ?b' = "commit (browser w) (checkCLIStatus ?resp (browser w))"
  from u shown reg have "interval (browser w) = Some \<lparr>callback = CheckCLIStatus, delay = 20000\<rparr>"
    by (simp add: pollEffect_def)
  then have disp: "dispatch (Fire ?resp) (browser w) = ?b'"
    by (simp add: dispatch_def tick_def)
  have f: "fire auth w =
      w\<lparr>browser := ?b', backend := snd (GetStatus (clock w) (username u) (backend w)),
        due := next_due (clock w) ?b'\<rparr>"
    by (simp add: fire_def Let_def status_call_live [where auth = auth, OF u ok r] disp)
  note after = shown_after_poll [OF u reg refl, of ?d]
  show "clock (fire auth w) = clock w" by (simp add: f)
  show "due (fire auth w) = Some (clock w + 20000)"
    by (simp add: f next_due_def after(3))
  show "live (backend (fire auth w)) (username u) = Some (r\<lparr>lastActivityAt := clock w\<rparr>)"
    by (simp add: f live_GetStatus r)
  show "requests (browser (fire auth w)) = requests (browser w) @
          [\<lparr>verb = GET, path = ''/cli/status/'' @ username u,
            authorization = interceptor (browser w), body = NoBody\<rparr>]"
    by (simp add: f after(5))
  show "user (browser (fire auth w)) = Some u" by (simp add: f after(1))
  show "shown_container (browser (fire auth w)) \<noteq> None" by (simp add: f after(2))
  show "interval (browser (fire auth w)) = pollEffect (browser (fire auth w))"
    by (simp add: f after(1-3) pollEffect_def)
  show "interceptor (browser (fire auth w)) = interceptor (browser w)"
    by (simp add: f after(4))
qed

lemma fire_keeps_watched:
  assumes "watched auth u w"
  shows "watched auth u (fire auth w)"
proof -
  from assms obtain r where
    u: "user (browser w) = Some u" and shown: "shown_container (browser w) \<noteq> None"
    and reg: "interval (browser w) = pollEffect (browser w)"
    and ok: "auth \<lparr>verb = GET, path = ''/cli/status/'' @ username u,
               authorization = interceptor (browser w), body = NoBody\<rparr>"
    and r: "live (backend w) (username u) = Some r"
    by (auto simp: watched_def split: option.splits)
  from fire_watched [where auth = auth, OF u shown reg ok r] ok
  show ?thesis
    by (simp add: watched_def idle_threshold_def)
qed

lemma advance_keeps_watched:
  "watched auth u w \<Longrightarrow> watched auth u (advance auth d w)"
proof (induction auth d w rule: advance.induct)
  case (1 auth d w)
  from "1.prems" obtain r t where t: "due w = Some t" and le: "clock w \<le> t"
    and r: "live (backend w) (username u) = Some r"
    and fresh: "t \<le> lastActivityAt r + idle_threshold"
    by (auto simp: watched_def split: option.splits)
  show ?case
  proof (cases "clock w + d < t")
    case True
    with t have "advance auth d w = w\<lparr>clock := clock w + d\<rparr>"
      by (simp add: advance.simps [of auth d w])
    with "1.prems" True t show ?thesis
      by (auto simp: watched_def split: option.splits)
  next
    case False
    from le have m: "max t (clock w) = t" by simp
    from "1.prems" t have "watched auth u (w\<lparr>clock := max t (clock w)\<rparr>)"
      by (auto simp: watched_def m split: option.splits)
    then have "watched auth u (fire auth (w\<lparr>clock := max t (clock w)\<rparr>))"
      by (rule fire_keeps_watched)
    from "1.IH" [OF t False this] t False show ?thesis
      by (simp add: advance.simps [of auth d w])
  qed
qed

lemma reap_keeps_watched:
  assumes "watched auth u w"
  shows "watched auth u (w\<lparr>backend := ReaperCycle ad (clock w) (backend w)\<rparr>)"
proof -
  from assms obtain r t where t: "due w = Some t" and le: "clock w \<le> t"
    and r: "live (backend w) (username u) = Some r"
    and fresh: "t \<le> lastActivityAt r + idle_threshold"
    and rest: "user (browser w) = Some u" "shown_container (browser w) \<noteq> None"
      "interval (browser w) = pollEffect (browser w)"
      "auth \<lparr>verb = GET, path = ''/cli/status/'' @ username u,
               authorization = interceptor (browser w), body = NoBody\<rparr>"
    by (auto simp: watched_def split: option.splits)
  from le fresh have "\<not> (state r = Active \<and> idle_threshold < clock w - lastActivityAt r)"
    by linarith
  from fold_reap_fresh [OF r this]
  have "live (ReaperCycle ad (clock w) (backend w)) (username u) = Some r"
    by (simp add: ReaperCycle_def)
  with t le fresh rest show ?thesis by (simp add: watched_def)
qed

lemma run_keeps_watched:
  "watched auth u w \<Longrightarrow> watched auth u (fold (happen auth ad) run w)"
proof (induction run arbitrary: w)
  case Nil
  then show ?case by simp
next
  case (Cons h run)
  have "watched auth u (happen auth ad h w)"
  proof (cases h)
    case (Pass d)
    with Cons.prems show ?thesis by (simp add: advance_keeps_watched)
  next
    case Reap
    with Cons.prems show ?thesis by (simp add: reap_keeps_watched)
  qed
  from Cons.IH [OF this] show ?case by simp
qed

lemma greet_watched:
  assumes u: "user (browser w) = Some u"
    and hidden: "shown_container (browser w) = None"
    and reg: "interval (browser w) = pollEffect (browser w)"
    and ok: "auth \<lparr>verb = GET, path = ''/cli/status/'' @ username u,
               authorization = interceptor (browser w), body = NoBody\<rparr>"
    and r: "live (backend w) (username u) = Some r"
  shows "watched auth u (greet auth w)"
    and "due (greet auth w) = Some (clock w + 20000)"
    and "live (backend (greet auth w)) (username u) = Some (r\<lparr>lastActivityAt := clock w\<rparr>)"
proof -
  let ?d = "descriptor (r\<lparr>lastActivityAt := clock w\<rparr>)"
  let ?resp = "Resolved (StatusData True (Some ?d))"
  let ?b' = "commit (browser w) (checkCLIStatus ?resp (browser w))"
  from u have disp: "dispatch (UserChanged ?resp) (browser w) = ?b'"
    by (simp add: dispatch_def userEffect_def)
  note after = shown_after_poll [OF u reg refl, of ?d]
  from hidden after(2) have deps: "pollDeps ?b' \<noteq> pollDeps (browser w)"
    by (simp add: pollDeps_def)
  have g: "greet auth w =
      w\<lparr>browser := ?b', backend := snd (GetStatus (clock w) (username u) (backend w)),
        due := next_due (clock w) ?b'\<rparr>"
    using deps
    by (simp add: greet_def Let_def status_call_live [where auth = auth, OF u ok r] disp)
  show "due (greet auth w) = Some (clock w + 20000)"
    by (simp add: g next_due_def after(3))
  show "live (backend (greet auth w)) (username u) = Some (r\<lparr>lastActivityAt := clock w\<rparr>)"
    by (simp add: g live_GetStatus r)
  with ok show "watched auth u (greet auth w)"
    by (simp add: watched_def g after pollEffect_def next_due_def live_GetStatus r
        idle_threshold_def)
qed

lemma period_watched:
  assumes w: "watched auth v w" and t: "due w = Some t"
  shows "clock (advance auth (t - clock w) w) = t"
    and "due (advance auth (t - clock w) w) = Some (t + 20000)"
    and "requests (browser (advance auth (t - clock w) w)) =
          requests (browser w) @
            [\<lparr>verb = GET, path = ''/cli/status/'' @ username v,
              authorization = interceptor (browser w), body = NoBody\<rparr>]"
    and "map_option lastActivityAt (live (backend (advance auth (t - clock w) w)) (username v)) =
          Some t"
proof -
  from w t obtain r where le: "clock w \<le> t"
    and r: "live (backend w) (username v) = Some r"
    and rest: "user (browser w) = Some v" "shown_container (browser w) \<noteq> None"
      "interval (browser w) = pollEffect (browser w)"
      "auth \<lparr>verb = GET, path = ''/cli/status/'' @ username v,
               authorization = interceptor (browser w), body = NoBody\<rparr>"
    by (auto simp: watched_def split: option.splits)
  let ?w = "w\<lparr>clock := t\<rparr>"
  from rest r
  have f: "clock (fire auth ?w) = t" "due (fire auth ?w) = Some (t + 20000)"
    "live (backend (fire auth ?w)) (username v) = Some (r\<lparr>lastActivityAt := t\<rparr>)"
    "requests (browser (fire auth ?w)) = requests (browser w) @
          [\<lparr>verb = GET, path = ''/cli/status/'' @ username v,
            authorization = interceptor (browser w), body = NoBody\<rparr>]"
    using fire_watched [where auth = auth and w = ?w and u = v and r = r] by simp_all
  from le t have "advance auth (t - clock w) w = advance auth 0 (fire auth ?w)"
    by (simp add: advance.simps [of auth "t - clock w" w] max_def)
  also from f have "\<dots> = fire auth ?w"
    by (simp add: advance.simps [of auth 0 "fire auth ?w"])
  finally have a: "advance auth (t - clock w) w = fire auth ?w" .
  from f show "clock (advance auth (t - clock w) w) = t"
    and "due (advance auth (t - clock w) w) = Some (t + 20000)"
    and "requests (browser (advance auth (t - clock w) w)) =
          requests (browser w) @
            [\<lparr>verb = GET, path = ''/cli/status/'' @ username v,
              authorization = interceptor (browser w), body = NoBody\<rparr>]"
    and "map_option lastActivityAt (live (backend (advance auth (t - clock w) w)) (username v)) =
          Some t"
    by (simp_all add: a)
qed



end
